theory Spec2Isabelle
  imports Main "HOL-Library.Sublist" "HOL-Library.Char_ord" "HOL-Library.List_Lexorder"
    "HOL-Library.Multiset"
begin

section \<open>Python values used by the service\<close>

text \<open>
  Strings are byte lists; \<open>NL\<close> is the line feed that Python writes as a backslash
  followed by n.
\<close>

abbreviation NL :: char where
  "NL \<equiv> CHR 0x0A"

text \<open>
  The value stored under a key of a resume sub-document: a string, or Python's
  \<open>None\<close> (a JSON null). \<open>py_str\<close> is what an f-string prints for it.
\<close>

datatype py_val = PyNone | PyStr string

fun py_str :: "py_val \<Rightarrow> string" where
  "py_str PyNone = ''None''"
| "py_str (PyStr s) = s"

text \<open>
  A dict with string keys, as the key-value pairs in insertion order (a stored document
  keeps the order of its fields). \<open>dict_get d k dflt\<close> is \<open>d.get(k, dflt)\<close>, and
  \<open>d.get(k)\<close> is \<open>dict_get d k PyNone\<close>. A key that is present with the value
  \<open>None\<close> yields \<open>None\<close>, not the default. The keys of a dict are distinct.
\<close>

type_synonym py_dict = "(string \<times> py_val) list"

definition dict_get :: "py_dict \<Rightarrow> string \<Rightarrow> py_val \<Rightarrow> py_val" where
  "dict_get d k dflt = (case map_of d k of None \<Rightarrow> dflt | Some v \<Rightarrow> v)"

text \<open>\<open>sep.join(xs)\<close> on a list of strings.\<close>

fun join_str :: "string \<Rightarrow> string list \<Rightarrow> string" where
  "join_str sep [] = []"
| "join_str sep [x] = x"
| "join_str sep (x # y # ys) = x @ sep @ join_str sep (y # ys)"

section \<open>The resume document\<close>

text \<open>
  An education entry and a project are read with \<open>.get(key)\<close> only, so an absent key
  and a null value both read as \<open>PyNone\<close>. The personal-info dict is read with
  defaults, so it stays a dict. Each top-level key of the resume may be absent
  (\<open>None\<close>): the code reads it with \<open>resume.get(key, default)\<close>. Skills are a dict
  from category to skill list in insertion order, kept as an association list.
\<close>

record education_entry =
  degree :: py_val
  status :: py_val
  institution :: py_val

record project =
  proj_name :: py_val
  description :: py_val
  technologies :: "string list"

record resume_document =
  personal_info :: "py_dict option"
  education :: "education_entry list option"
  skills :: "(string \<times> string list) list option"
  projects :: "project list option"
  about :: "string option"

section \<open>Context Builder: \<open>get_resume_context\<close>\<close>

text \<open>
  The argument is the result of \<open>resume_collection.find_one()\<close>. The three \<open>for\<close>
  loops that extend \<open>context\<close> are left folds over the accumulated string (named
  \<open>ctx\<close> here).
\<close>

definition get_resume_context :: "resume_document option \<Rightarrow> string" where
  "get_resume_context found =
     (case found of
        None \<Rightarrow> ''No resume data available.''
      | Some resume \<Rightarrow>
          (let personal = (case personal_info resume of None \<Rightarrow> [] | Some p \<Rightarrow> p);
               education = (case education resume of None \<Rightarrow> [] | Some es \<Rightarrow> es);
               skills = (case skills resume of None \<Rightarrow> [] | Some ss \<Rightarrow> ss);
               projects = (case projects resume of None \<Rightarrow> [] | Some ps \<Rightarrow> ps);
               about = (case about resume of None \<Rightarrow> [] | Some a \<Rightarrow> a);
               ctx = [NL] @ ''You are an AI assistant for ''
                       @ py_str (dict_get personal ''name'' (PyStr ''the candidate''))
                       @ '''s portfolio website. Answer questions about their background, skills, and experience professionally and concisely.''
                       @ [NL, NL]
                       @ ''Name: '' @ py_str (dict_get personal ''name'' PyNone) @ [NL]
                       @ ''Title: '' @ py_str (dict_get personal ''title'' PyNone) @ [NL]
                       @ ''Email: '' @ py_str (dict_get personal ''email'' PyNone) @ [NL]
                       @ ''Mobile: '' @ py_str (dict_get personal ''mobile'' PyNone) @ [NL]
                       @ ''Location: ''
                       @ py_str (dict_get personal ''location'' (PyStr ''Not specified'')) @ [NL]
                       @ [NL] @ ''Education:'' @ [NL];
               ctx = foldl (\<lambda>ctx edu.
                         ctx @ ''- '' @ py_str (degree edu) @ '' - '' @ py_str (status edu) @ [NL])
                       ctx education;
               ctx = ctx @ [NL] @ ''Skills:'' @ [NL];
               ctx = foldl (\<lambda>ctx (category, skill_list).
                         ctx @ ''- '' @ category @ '': '' @ join_str '', '' skill_list @ [NL])
                       ctx skills;
               ctx = ctx @ [NL] @ ''Projects:'' @ [NL];
               ctx = foldl (\<lambda>ctx proj.
                         ctx @ ''- '' @ py_str (proj_name proj) @ '': ''
                             @ py_str (description proj) @ [NL])
                       ctx projects;
               ctx = ctx @ [NL] @ ''About:'' @ [NL] @ about @ [NL];
               ctx = ctx @ [NL] @ ''Answer questions naturally and professionally. If asked about something not mentioned here, politely indicate that information is not available.''
           in ctx))"

subsection \<open>The rendering as the specification describes it\<close>

text \<open>
  The sections of the rendered context, one definition per item of the specification's
  list, and their concatenation in the stated order.
\<close>

definition no_resume_sentence :: string where
  "no_resume_sentence = ''No resume data available.''"

definition personal_of :: "resume_document \<Rightarrow> py_dict" where
  "personal_of r = (case personal_info r of None \<Rightarrow> [] | Some p \<Rightarrow> p)"

definition education_of :: "resume_document \<Rightarrow> education_entry list" where
  "education_of r = (case education r of None \<Rightarrow> [] | Some es \<Rightarrow> es)"

definition skills_of :: "resume_document \<Rightarrow> (string \<times> string list) list" where
  "skills_of r = (case skills r of None \<Rightarrow> [] | Some ss \<Rightarrow> ss)"

definition projects_of :: "resume_document \<Rightarrow> project list" where
  "projects_of r = (case projects r of None \<Rightarrow> [] | Some ps \<Rightarrow> ps)"

definition about_of :: "resume_document \<Rightarrow> string" where
  "about_of r = (case about r of None \<Rightarrow> [] | Some a \<Rightarrow> a)"

definition role_framing :: "py_dict \<Rightarrow> string" where
  "role_framing p =
     [NL] @ ''You are an AI assistant for ''
       @ py_str (case map_of p ''name'' of None \<Rightarrow> PyStr ''the candidate'' | Some v \<Rightarrow> v)
       @ '''s portfolio website. Answer questions about their background, skills, and experience professionally and concisely.''
       @ [NL, NL]"

definition field_line :: "string \<Rightarrow> py_val \<Rightarrow> string" where
  "field_line label v = label @ '': '' @ py_str v @ [NL]"

definition personal_fields :: "py_dict \<Rightarrow> string" where
  "personal_fields p =
     field_line ''Name'' (case map_of p ''name'' of None \<Rightarrow> PyNone | Some v \<Rightarrow> v)
     @ field_line ''Title'' (case map_of p ''title'' of None \<Rightarrow> PyNone | Some v \<Rightarrow> v)
     @ field_line ''Email'' (case map_of p ''email'' of None \<Rightarrow> PyNone | Some v \<Rightarrow> v)
     @ field_line ''Mobile'' (case map_of p ''mobile'' of None \<Rightarrow> PyNone | Some v \<Rightarrow> v)
     @ field_line ''Location''
         (case map_of p ''location'' of None \<Rightarrow> PyStr ''Not specified'' | Some v \<Rightarrow> v)"

definition education_line :: "education_entry \<Rightarrow> string" where
  "education_line e = ''- '' @ py_str (degree e) @ '' - '' @ py_str (status e) @ [NL]"

definition skill_line :: "string \<times> string list \<Rightarrow> string" where
  "skill_line cs = ''- '' @ fst cs @ '': '' @ join_str '', '' (snd cs) @ [NL]"

definition project_line :: "project \<Rightarrow> string" where
  "project_line p = ''- '' @ py_str (proj_name p) @ '': '' @ py_str (description p) @ [NL]"

definition education_section :: "education_entry list \<Rightarrow> string" where
  "education_section es = [NL] @ ''Education:'' @ [NL] @ concat (map education_line es)"

definition skills_section :: "(string \<times> string list) list \<Rightarrow> string" where
  "skills_section ss = [NL] @ ''Skills:'' @ [NL] @ concat (map skill_line ss)"

definition projects_section :: "project list \<Rightarrow> string" where
  "projects_section ps = [NL] @ ''Projects:'' @ [NL] @ concat (map project_line ps)"

definition about_section :: "string \<Rightarrow> string" where
  "about_section a = [NL] @ ''About:'' @ [NL] @ a @ [NL]"

definition closing_instruction :: string where
  "closing_instruction =
     [NL] @ ''Answer questions naturally and professionally. If asked about something not mentioned here, politely indicate that information is not available.''"

definition spec_context :: "resume_document option \<Rightarrow> string" where
  "spec_context found =
     (case found of
        None \<Rightarrow> no_resume_sentence
      | Some r \<Rightarrow>
          role_framing (personal_of r)
          @ personal_fields (personal_of r)
          @ education_section (education_of r)
          @ skills_section (skills_of r)
          @ projects_section (projects_of r)
          @ about_section (about_of r)
          @ closing_instruction)"

subsection \<open>Occurrences of a name in the rendered text\<close>

text \<open>
  \<open>occurrences sub s\<close> counts the positions of \<open>s\<close> at which \<open>sub\<close> starts.
  \<open>after_first sub s\<close> is what follows the leftmost occurrence of \<open>sub\<close> in \<open>s\<close>, and
  \<open>occur_in_order ns s\<close> holds when the strings \<open>ns\<close> can be found in \<open>s\<close> one after
  the other, without overlap, in the order of the list.
\<close>

fun occurrences :: "string \<Rightarrow> string \<Rightarrow> nat" where
  "occurrences sub [] = (if sub = [] then 1 else 0)"
| "occurrences sub (c # cs) = (if prefix sub (c # cs) then 1 else 0) + occurrences sub cs"

fun after_first :: "string \<Rightarrow> string \<Rightarrow> string option" where
  "after_first sub [] = (if sub = [] then Some [] else None)"
| "after_first sub (c # cs) =
     (if prefix sub (c # cs) then Some (drop (length sub) (c # cs)) else after_first sub cs)"

fun occur_in_order :: "string list \<Rightarrow> string \<Rightarrow> bool" where
  "occur_in_order [] s = True"
| "occur_in_order (n # ns) s =
     (case after_first n s of None \<Rightarrow> False | Some rest \<Rightarrow> occur_in_order ns rest)"

definition category_names :: "resume_document \<Rightarrow> string list" where
  "category_names r = map fst (skills_of r)"

definition project_names :: "resume_document \<Rightarrow> string list" where
  "project_names r = map (\<lambda>p. py_str (proj_name p)) (projects_of r)"

section \<open>Exceptions\<close>

text \<open>
  The handlers raise \<open>HTTPException(status_code, detail)\<close>. Every other exception
  is kept as its class and the text that \<open>str(e)\<close> gives, which is all the handlers
  read of it. Inside the body of \<open>chat\<close> both kinds can be raised; the two
  \<open>except\<close> clauses at its end tell them apart.
\<close>

datatype exc_class =
  KeyError | IndexError | TypeError | JSONDecodeError | ValidationError | HTTPError
  | PyMongoError

datatype raw_exception = Exc exc_class string

datatype http_exception = HTTPException int string

datatype chat_failure = RaisedHTTP http_exception | RaisedOther raw_exception

section \<open>Parsed JSON and subscripting\<close>

text \<open>
  The value \<open>response.json()\<close> returns. A float keeps its literal; no arithmetic is
  done on it. An object keeps its pairs in order, and a repeated key reads as its last
  value, as \<open>json.loads\<close> does.
\<close>

datatype json =
  JNull | JBool bool | JInt int | JFloat string | JStr string
  | JArr "json list" | JObj "(string \<times> json) list"

text \<open>
  \<open>subscript_key v k\<close> is \<open>v[k]\<close> for a string key and \<open>subscript_zero v\<close> is
  \<open>v[0]\<close>, with the exception Python raises where the value does not support it.
  The \<open>KeyError\<close> text is the \<open>repr\<close> of the key (for the keys used here, the key in
  single quotes); the \<open>TypeError\<close> texts are CPython's and vary a little between
  versions. \<open>s[0]\<close> on a string is its first character, here its first byte.
\<close>

definition repr_key :: "string \<Rightarrow> string" where
  "repr_key k = [CHR 0x27] @ k @ [CHR 0x27]"

fun subscript_key :: "json \<Rightarrow> string \<Rightarrow> raw_exception + json" where
  "subscript_key (JObj kvs) k =
     (case map_of (rev kvs) k of None \<Rightarrow> Inl (Exc KeyError (repr_key k)) | Some v \<Rightarrow> Inr v)"
| "subscript_key (JArr xs) k =
     Inl (Exc TypeError ''list indices must be integers or slices, not str'')"
| "subscript_key (JStr s) k =
     Inl (Exc TypeError (''string indices must be integers, not '' @ repr_key ''str''))"
| "subscript_key JNull k =
     Inl (Exc TypeError (repr_key ''NoneType'' @ '' object is not subscriptable''))"
| "subscript_key (JBool b) k =
     Inl (Exc TypeError (repr_key ''bool'' @ '' object is not subscriptable''))"
| "subscript_key (JInt i) k =
     Inl (Exc TypeError (repr_key ''int'' @ '' object is not subscriptable''))"
| "subscript_key (JFloat f) k =
     Inl (Exc TypeError (repr_key ''float'' @ '' object is not subscriptable''))"

fun subscript_zero :: "json \<Rightarrow> raw_exception + json" where
  "subscript_zero (JArr []) = Inl (Exc IndexError ''list index out of range'')"
| "subscript_zero (JArr (x # xs)) = Inr x"
| "subscript_zero (JObj kvs) = Inl (Exc KeyError ''0'')"
| "subscript_zero (JStr []) = Inl (Exc IndexError ''string index out of range'')"
| "subscript_zero (JStr (c # cs)) = Inr (JStr [c])"
| "subscript_zero JNull =
     Inl (Exc TypeError (repr_key ''NoneType'' @ '' object is not subscriptable''))"
| "subscript_zero (JBool b) =
     Inl (Exc TypeError (repr_key ''bool'' @ '' object is not subscriptable''))"
| "subscript_zero (JInt i) =
     Inl (Exc TypeError (repr_key ''int'' @ '' object is not subscriptable''))"
| "subscript_zero (JFloat f) =
     Inl (Exc TypeError (repr_key ''float'' @ '' object is not subscriptable''))"

text \<open>\<open>body["choices"][0]["message"]["content"]\<close>, stopping at the first exception.\<close>

definition extract_content :: "json \<Rightarrow> raw_exception + json" where
  "extract_content body =
     (case subscript_key body ''choices'' of
        Inl e \<Rightarrow> Inl e
      | Inr choices \<Rightarrow>
          (case subscript_zero choices of
             Inl e \<Rightarrow> Inl e
           | Inr choice \<Rightarrow>
               (case subscript_key choice ''message'' of
                  Inl e \<Rightarrow> Inl e
                | Inr message \<Rightarrow> subscript_key message ''content'')))"

section \<open>The outside world: stores, upstream API, clock\<close>

text \<open>
  A stored document carries \<open>_id\<close>: an \<open>ObjectId\<close> (with its hexadecimal text) as
  the store gives it, or a plain string once a handler has applied \<open>str\<close> to it.
\<close>

datatype id_value = ObjectId string | IdStr string

fun str_id :: "id_value \<Rightarrow> id_value" where
  "str_id (ObjectId h) = IdStr h"
| "str_id (IdStr s) = IdStr s"

fun is_plain_string :: "id_value \<Rightarrow> bool" where
  "is_plain_string (ObjectId h) = False"
| "is_plain_string (IdStr s) = True"

record stored_resume =
  doc_id :: id_value
  doc :: resume_document

text \<open>
  A stored chat exchange. \<open>ai_response\<close> is whatever the upstream put under
  \<open>content\<close>: the record is written before the response model checks that it is text.
\<close>

record chat_doc =
  chat_id :: id_value
  user_message :: string
  ai_response :: json
  timestamp :: string

record http_request =
  url :: string
  authorization :: string
  content_type :: string
  model :: string
  system_content :: string
  user_content :: string
  timeout :: nat

record http_response =
  status_code :: int
  body_text :: string
  json_result :: "raw_exception + json"

datatype db_op =
  ResumeCountDocuments | ResumeInsertOne | ResumeFindOne | ResumeReplaceOne
  | ChatsInsertOne | ChatsFind

text \<open>
  What one request meets outside the program: the credential in the environment, the
  answer of the upstream API to a request (or the exception of the HTTP client), the
  text \<open>str\<close> gives for a parsed JSON value, the text of the response model's
  validation error, the successive readings of the clock and the successive fresh
  \<open>ObjectId\<close>s, and, for each store operation, whether it raises (with which text).
\<close>

record env =
  getenv_api_key :: "string option"
  post :: "http_request \<Rightarrow> raw_exception + http_response"
  str_json :: "json \<Rightarrow> string"
  validation_error_text :: "json \<Rightarrow> string"
  utcnow_isoformat :: "nat \<Rightarrow> string"
  new_object_id :: "nat \<Rightarrow> string"
  db_fault :: "db_op \<Rightarrow> string option"

text \<open>
  The state the handlers share: the two collections in insertion order, the outbound
  calls attempted so far, and how many clock readings and \<open>ObjectId\<close>s were taken.
\<close>

record world =
  resume_collection :: "stored_resume list"
  chats_collection :: "chat_doc list"
  outbound :: "http_request list"
  clock_reads :: nat
  ids_made :: nat

subsection \<open>Store operations\<close>

text \<open>
  \<open>find_one()\<close> with no filter is the first document; \<open>insert_one\<close> appends with a
  fresh \<open>_id\<close>; \<open>replace_one({}, data, upsert=True)\<close> replaces the content of the first
  document, keeping its \<open>_id\<close>, or inserts when there is none, and reports how many
  documents it changed; \<open>limit(0)\<close> is no limit and a negative limit is read as its
  absolute value; \<open>sort("timestamp", -1)\<close> is descending in the string order.
\<close>

definition find_one :: "'a list \<Rightarrow> 'a option" where
  "find_one coll = (case coll of [] \<Rightarrow> None | d # ds \<Rightarrow> Some d)"

definition replace_one_upsert ::
  "string \<Rightarrow> resume_document \<Rightarrow> stored_resume list \<Rightarrow> stored_resume list \<times> nat \<times> bool"
where
  "replace_one_upsert fresh data coll =
     (case coll of
        [] \<Rightarrow> ([\<lparr>doc_id = ObjectId fresh, doc = data\<rparr>], 0, True)
      | d # ds \<Rightarrow> (d\<lparr>doc := data\<rparr> # ds, if doc d = data then 0 else 1, False))"

definition sort_desc :: "chat_doc list \<Rightarrow> chat_doc list" where
  "sort_desc cs = rev (sort_key timestamp cs)"

definition cursor_limit :: "int \<Rightarrow> 'a list \<Rightarrow> 'a list" where
  "cursor_limit n xs = (if n = 0 then xs else take (nat \<bar>n\<bar>) xs)"

section \<open>Startup: \<open>initialize_resume\<close>\<close>

definition resume_data :: resume_document where
  "resume_data =
     \<lparr>personal_info = Some
        [(''name'', PyStr ''Aditya Avinash Mane''),
         (''title'', PyStr ''Full Stack Developer & MCA Student''),
         (''email'', PyStr ''adityamane4650@gmail.com''),
         (''mobile'', PyStr ''+91 9673594650''),
         (''location'', PyStr ''India'')],
      education = Some
        [\<lparr>degree = PyStr ''Master of Computer Applications (MCA)'',
          status = PyStr ''Currently in Final Year (2nd Year)'',
          institution = PyStr ''University Name''\<rparr>,
         \<lparr>degree = PyStr ''Bachelor of Computer Applications (BCA)'',
          status = PyStr ''Completed'',
          institution = PyStr ''University Name''\<rparr>],
      skills = Some
        [(''Frontend'', [''React'', ''Next.js'', ''TypeScript'', ''JavaScript'', ''HTML'',
                         ''CSS'', ''Tailwind CSS'']),
         (''Backend'', [''Python'', ''FastAPI'', ''Node.js'', ''Nest.js'', ''Express'']),
         (''Database'', [''MongoDB'', ''PostgreSQL'', ''MySQL'']),
         (''AI/ML'', [''OpenAI'', ''OpenRouter API Integration'']),
         (''Tools'', [''Git'', ''Docker'', ''VS Code'']),
         (''Other'', [''REST APIs'', ''Responsive Design'', ''Full Stack Development''])],
      projects = Some
        [\<lparr>proj_name = PyStr ''AI-Powered Portfolio'',
          description = PyStr ''Interactive portfolio website with AI chat functionality using React, TypeScript, Python FastAPI, MongoDB, and OpenRouter API'',
          technologies = [''React'', ''TypeScript'', ''Python'', ''FastAPI'', ''MongoDB'',
                          ''OpenRouter'']\<rparr>,
         \<lparr>proj_name = PyStr ''Full Stack Web Applications'',
          description = PyStr ''Built various web applications using modern tech stack'',
          technologies = [''React'', ''Node.js'', ''Express'', ''MongoDB'']\<rparr>],
      about = Some ''Aditya is a passionate Full Stack Developer currently pursuing his Master's in Computer Applications. With a strong foundation in both frontend and backend technologies, he specializes in building modern, responsive web applications. He has hands-on experience with AI integration, database management, and creating seamless user experiences.''\<rparr>"

text \<open>
  Runs once when the module is loaded. An exception of the store ends the startup; the
  store is then as it was.
\<close>

definition initialize_resume :: "env \<Rightarrow> world \<Rightarrow> (raw_exception + unit) \<times> world" where
  "initialize_resume e w =
     (case db_fault e ResumeCountDocuments of
        Some msg \<Rightarrow> (Inl (Exc PyMongoError msg), w)
      | None \<Rightarrow>
          if length (resume_collection w) = 0 then
            (case db_fault e ResumeInsertOne of
               Some msg \<Rightarrow> (Inl (Exc PyMongoError msg), w)
             | None \<Rightarrow>
                 (Inr (),
                  w\<lparr>resume_collection := resume_collection w
                       @ [\<lparr>doc_id = ObjectId (new_object_id e (ids_made w)),
                           doc = resume_data\<rparr>],
                    ids_made := Suc (ids_made w)\<rparr>))
          else (Inr (), w))"

section \<open>Chat Proxy: \<open>chat\<close>\<close>

record chat_response =
  response :: string
  response_timestamp :: string

definition placeholder_key :: string where
  "placeholder_key = ''your_openrouter_api_key_here''"

definition key_not_configured :: http_exception where
  "key_not_configured =
     HTTPException 500 ''OpenRouter API key not configured. Please add your API key to backend/.env file. Get a free key at https://openrouter.ai/''"

definition build_request :: "string \<Rightarrow> string \<Rightarrow> string \<Rightarrow> http_request" where
  "build_request api_key ctx message =
     \<lparr>url = ''https://openrouter.ai/api/v1/chat/completions'',
      authorization = ''Bearer '' @ api_key,
      content_type = ''application/json'',
      model = ''openrouter/auto:free'',
      system_content = ctx,
      user_content = message,
      timeout = 30\<rparr>"

text \<open>
  The inner \<open>try\<close>: read the clock, insert the exchange; if the insert raises, read
  the clock again and go on. Returns the timestamp and the new state.
\<close>

definition record_exchange :: "env \<Rightarrow> world \<Rightarrow> string \<Rightarrow> json \<Rightarrow> string \<times> world" where
  "record_exchange e w message ai =
     (let ts = utcnow_isoformat e (clock_reads w);
          w1 = w\<lparr>clock_reads := Suc (clock_reads w)\<rparr>
      in case db_fault e ChatsInsertOne of
           None \<Rightarrow>
             (ts,
              w1\<lparr>chats_collection := chats_collection w1
                    @ [\<lparr>chat_id = ObjectId (new_object_id e (ids_made w1)),
                        user_message = message, ai_response = ai, timestamp = ts\<rparr>],
                 ids_made := Suc (ids_made w1)\<rparr>)
         | Some db_error \<Rightarrow>
             (utcnow_isoformat e (clock_reads w1),
              w1\<lparr>clock_reads := Suc (clock_reads w1)\<rparr>))"

text \<open>
  \<open>ChatResponse(response=ai_response, timestamp=timestamp)\<close>: the field
  \<open>response\<close> is declared \<open>str\<close>, and the response model accepts text only.
\<close>

definition make_chat_response :: "env \<Rightarrow> json \<Rightarrow> string \<Rightarrow> raw_exception + chat_response" where
  "make_chat_response e ai ts =
     (case ai of
        JStr s \<Rightarrow> Inr \<lparr>response = s, response_timestamp = ts\<rparr>
      | _ \<Rightarrow> Inl (Exc ValidationError (validation_error_text e ai)))"

text \<open>
  The body of the outer \<open>try\<close>. The arguments of \<open>client.post\<close> are evaluated before
  the call, so the resume is read (and rendered) first; the call is logged in
  \<open>outbound\<close> when it is attempted, whatever its outcome.
\<close>

definition chat_body :: "env \<Rightarrow> world \<Rightarrow> string \<Rightarrow> (chat_failure + chat_response) \<times> world" where
  "chat_body e w message =
     (case getenv_api_key e of
        None \<Rightarrow> (Inl (RaisedHTTP key_not_configured), w)
      | Some api_key \<Rightarrow>
          if api_key = [] \<or> api_key = placeholder_key then
            (Inl (RaisedHTTP key_not_configured), w)
          else
            (case db_fault e ResumeFindOne of
               Some msg \<Rightarrow> (Inl (RaisedOther (Exc PyMongoError msg)), w)
             | None \<Rightarrow>
                 (let ctx = get_resume_context (map_option doc (find_one (resume_collection w)));
                      request = build_request api_key ctx message;
                      w1 = w\<lparr>outbound := outbound w @ [request]\<rparr>
                  in case post e request of
                       Inl err \<Rightarrow> (Inl (RaisedOther err), w1)
                     | Inr resp \<Rightarrow>
                         if status_code resp \<noteq> 200 then
                           (if body_text resp \<noteq> [] then
                              (case json_result resp of
                                 Inl err \<Rightarrow> (Inl (RaisedOther err), w1)
                               | Inr error_detail \<Rightarrow>
                                   (Inl (RaisedHTTP (HTTPException 500
                                      (''AI service error: '' @ str_json e error_detail))), w1))
                            else
                              (Inl (RaisedHTTP (HTTPException 500
                                 (''AI service error: '' @ ''AI service error''))), w1))
                         else
                           (case json_result resp of
                              Inl err \<Rightarrow> (Inl (RaisedOther err), w1)
                            | Inr body \<Rightarrow>
                                (case extract_content body of
                                   Inl err \<Rightarrow> (Inl (RaisedOther err), w1)
                                 | Inr ai \<Rightarrow>
                                     (let (ts, w2) = record_exchange e w1 message ai
                                      in case make_chat_response e ai ts of
                                           Inl err \<Rightarrow> (Inl (RaisedOther err), w2)
                                         | Inr r \<Rightarrow> (Inr r, w2)))))))"

text \<open>
  The two clauses that close the outer \<open>try\<close>: an \<open>HTTPException\<close> is raised again
  as it is, any other exception becomes a 500 whose detail is \<open>str(e)\<close>.
\<close>

fun at_handler_boundary :: "chat_failure \<Rightarrow> http_exception" where
  "at_handler_boundary (RaisedHTTP h) = h"
| "at_handler_boundary (RaisedOther (Exc c msg)) = HTTPException 500 msg"

definition chat :: "env \<Rightarrow> world \<Rightarrow> string \<Rightarrow> (http_exception + chat_response) \<times> world" where
  "chat e w message =
     (case chat_body e w message of
        (Inl failure, w') \<Rightarrow> (Inl (at_handler_boundary failure), w')
      | (Inr r, w') \<Rightarrow> (Inr r, w'))"

text \<open>The request that \<open>chat\<close> sends for a message, given the credential and the state.\<close>

definition chat_request :: "string \<Rightarrow> world \<Rightarrow> string \<Rightarrow> http_request" where
  "chat_request api_key w message =
     build_request api_key
       (get_resume_context (map_option doc (find_one (resume_collection w)))) message"

section \<open>The other endpoints\<close>

definition read_root :: "string \<times> string" where
  "read_root = (''status'', ''Portfolio API is running'')"

text \<open>
  \<open>GET /api/chat/history\<close>: the query, then \<open>str\<close> on each \<open>_id\<close>. The documents
  changed are the ones the query returned to the handler, not the stored ones.
\<close>

definition get_chat_history :: "env \<Rightarrow> world \<Rightarrow> int \<Rightarrow> http_exception + chat_doc list" where
  "get_chat_history e w limit =
     (case db_fault e ChatsFind of
        Some msg \<Rightarrow> Inl (HTTPException 500 msg)
      | None \<Rightarrow>
          Inr (map (\<lambda>c. c\<lparr>chat_id := str_id (chat_id c)\<rparr>)
                 (cursor_limit limit (sort_desc (chats_collection w)))))"

text \<open>The parameter \<open>limit: int = 10\<close>: the value in the query, or 10 when it has none.\<close>

definition query_limit :: "int option \<Rightarrow> int" where
  "query_limit q = (case q of None \<Rightarrow> 10 | Some n \<Rightarrow> n)"

text \<open>
  What the specification asks of the list returned: newest first, that is, descending
  in the timestamp.
\<close>

definition newest_first :: "chat_doc list \<Rightarrow> bool" where
  "newest_first cs = sorted_wrt (\<lambda>a b. timestamp b \<le> timestamp a) cs"

datatype resume_reply = ResumeFound stored_resume | NoResume string

definition get_resume :: "env \<Rightarrow> world \<Rightarrow> http_exception + resume_reply" where
  "get_resume e w =
     (case db_fault e ResumeFindOne of
        Some msg \<Rightarrow> Inl (HTTPException 500 msg)
      | None \<Rightarrow>
          (case find_one (resume_collection w) of
             Some resume \<Rightarrow> Inr (ResumeFound (resume\<lparr>doc_id := str_id (doc_id resume)\<rparr>))
           | None \<Rightarrow> Inr (NoResume ''No resume data found'')))"

record update_reply =
  reply_message :: string
  modified :: nat

definition update_resume ::
  "env \<Rightarrow> world \<Rightarrow> resume_document \<Rightarrow> (http_exception + update_reply) \<times> world"
where
  "update_resume e w data =
     (case db_fault e ResumeReplaceOne of
        Some msg \<Rightarrow> (Inl (HTTPException 500 msg), w)
      | None \<Rightarrow>
          (case replace_one_upsert (new_object_id e (ids_made w)) data (resume_collection w) of
             (coll, modified_count, upserted) \<Rightarrow>
               (Inr \<lparr>reply_message = ''Resume updated successfully'',
                     modified = modified_count\<rparr>,
                w\<lparr>resume_collection := coll,
                  ids_made := (if upserted then Suc (ids_made w) else ids_made w)\<rparr>)))"

section \<open>The system as a whole\<close>

text \<open>
  Everything that can act on the stores: the startup initialisation and the five
  endpoints. A run is a sequence of operations, each in its own environment; the
  requests are taken one at a time.
\<close>

datatype operation =
  Startup | ReadRoot | Chat string | GetChatHistory int | GetResume
  | UpdateResume resume_document

fun step :: "env \<Rightarrow> world \<Rightarrow> operation \<Rightarrow> world" where
  "step e w Startup = snd (initialize_resume e w)"
| "step e w ReadRoot = w"
| "step e w (Chat message) = snd (chat e w message)"
| "step e w (GetChatHistory limit) = w"
| "step e w GetResume = w"
| "step e w (UpdateResume data) = snd (update_resume e w data)"

fun run :: "world \<Rightarrow> (env \<times> operation) list \<Rightarrow> world" where
  "run w [] = w"
| "run w ((e, op) # rest) = run (step e w op) rest"

section \<open>Concrete inputs\<close>

text \<open>
  A small resume whose only skill category is called like the section heading, an
  environment in which everything works, and the responses and states the examples
  below run on.
\<close>

abbreviation DQ :: char where
  "DQ \<equiv> CHR 0x22"

definition skills_heading_doc :: resume_document where
  "skills_heading_doc =
     \<lparr>personal_info = Some
        [(''name'', PyStr ''Ann''), (''title'', PyStr ''Developer''),
         (''email'', PyStr ''ann@example.org''), (''mobile'', PyStr ''1''),
         (''location'', PyStr ''Pune'')],
      education = Some [],
      skills = Some [(''Skills'', [''Git''])],
      projects = Some [],
      about = Some ''Hi''\<rparr>"

definition hello_body :: json where
  "hello_body =
     JObj [(''choices'', JArr [JObj [(''message'', JObj [(''content'', JStr ''Hello!'')])]])]"

definition hello_response :: http_response where
  "hello_response =
     \<lparr>status_code = 200,
      body_text = ''{'' @ [DQ] @ ''choices'' @ [DQ] @ '':[{'' @ [DQ] @ ''message'' @ [DQ]
                  @ '':{'' @ [DQ] @ ''content'' @ [DQ] @ '':'' @ [DQ] @ ''Hello!'' @ [DQ]
                  @ ''}}]}'',
      json_result = Inr hello_body\<rparr>"

definition empty_object_response :: http_response where
  "empty_object_response = \<lparr>status_code = 200, body_text = ''{}'', json_result = Inr (JObj [])\<rparr>"

definition bad_gateway_response :: http_response where
  "bad_gateway_response =
     \<lparr>status_code = 502,
      body_text = ''<html>Bad Gateway</html>'',
      json_result = Inl (Exc JSONDecodeError ''Expecting value: line 1 column 1 (char 0)'')\<rparr>"

definition no_choices_response :: http_response where
  "no_choices_response =
     \<lparr>status_code = 200,
      body_text = ''{'' @ [DQ] @ ''choices'' @ [DQ] @ '':[]}'',
      json_result = Inr (JObj [(''choices'', JArr [])])\<rparr>"

definition rejected_response :: http_response where
  "rejected_response = \<lparr>status_code = 401, body_text = ''{}'', json_result = Inr (JObj [])\<rparr>"

definition sample_clock :: "nat \<Rightarrow> string" where
  "sample_clock n =
     (if n = 0 then ''2026-01-01T10:00:00.000100'' else ''2026-01-01T10:00:00.000200'')"

definition sample_env :: env where
  "sample_env =
     \<lparr>getenv_api_key = Some ''sk-or-v1-0123'',
      post = (\<lambda>request. Inr hello_response),
      str_json = (\<lambda>v. ''{}''),
      validation_error_text = (\<lambda>v. ''1 validation error for ChatResponse''),
      utcnow_isoformat = sample_clock,
      new_object_id = (\<lambda>n. ''65a1b2c3d4e5f60718293a4b''),
      db_fault = (\<lambda>op. None)\<rparr>"

definition bad_gateway_env :: env where
  "bad_gateway_env = sample_env\<lparr>post := (\<lambda>request. Inr bad_gateway_response)\<rparr>"

definition rejected_env :: env where
  "rejected_env = sample_env\<lparr>post := (\<lambda>request. Inr rejected_response)\<rparr>"

definition empty_object_env :: env where
  "empty_object_env = sample_env\<lparr>post := (\<lambda>request. Inr empty_object_response)\<rparr>"

definition no_choices_env :: env where
  "no_choices_env = sample_env\<lparr>post := (\<lambda>request. Inr no_choices_response)\<rparr>"

definition storage_down_env :: env where
  "storage_down_env =
     sample_env\<lparr>db_fault :=
       (\<lambda>op. if op = ChatsInsertOne then Some ''No servers found yet'' else None)\<rparr>"

definition empty_world :: world where
  "empty_world =
     \<lparr>resume_collection = [], chats_collection = [], outbound = [], clock_reads = 0,
      ids_made = 0\<rparr>"

definition one_chat_world :: world where
  "one_chat_world =
     \<lparr>resume_collection = [],
      chats_collection =
        [\<lparr>chat_id = ObjectId ''65a1b2c3d4e5f60718293a4b'', user_message = ''hi'',
          ai_response = JStr ''Hello!'', timestamp = ''2026-01-01T10:00:00.000100''\<rparr>],
      outbound = [], clock_reads = 1, ids_made = 1\<rparr>"

definition seeded_world :: world where
  "seeded_world =
     \<lparr>resume_collection =
        [\<lparr>doc_id = ObjectId ''65a1b2c3d4e5f60718293a4b'', doc = resume_data\<rparr>],
      chats_collection = [], outbound = [], clock_reads = 0, ids_made = 1\<rparr>"

definition two_chat_world :: world where
  "two_chat_world =
     \<lparr>resume_collection = [],
      chats_collection =
        [\<lparr>chat_id = ObjectId ''65a1b2c3d4e5f60718293a4b'', user_message = ''hi'',
          ai_response = JStr ''Hello!'', timestamp = ''2026-01-01T10:00:00.000100''\<rparr>,
         \<lparr>chat_id = ObjectId ''65a1b2c3d4e5f60718293a4c'', user_message = ''bye'',
          ai_response = JStr ''Goodbye!'', timestamp = ''2026-01-01T10:00:05.000200''\<rparr>],
      outbound = [], clock_reads = 2, ids_made = 2\<rparr>"

section \<open>Properties of the Context Builder\<close>

lemma foldl_append_lines:
  "foldl (\<lambda>acc x. acc @ f x) acc xs = acc @ concat (map f xs)"
  by (induction xs arbitrary: acc) simp_all

lemma get_resume_context_Some:
  "get_resume_context (Some r) =
     role_framing (personal_of r) @ personal_fields (personal_of r)
     @ education_section (education_of r) @ skills_section (skills_of r)
     @ projects_section (projects_of r) @ about_section (about_of r)
     @ closing_instruction"
proof -
  have edu: "\<And>acc es. foldl (\<lambda>ctx edu.
        ctx @ ''- '' @ py_str (degree edu) @ '' - '' @ py_str (status edu) @ [NL]) acc es
      = acc @ concat (map education_line es)"
    using foldl_append_lines [where f = education_line]
    by (simp add: education_line_def)
  have skl: "\<And>acc ss. foldl (\<lambda>ctx (category, skill_list).
        ctx @ ''- '' @ category @ '': '' @ join_str '', '' skill_list @ [NL]) acc ss
      = acc @ concat (map skill_line ss)"
  proof -
    fix acc ss
    show "foldl (\<lambda>ctx (category, skill_list).
        ctx @ ''- '' @ category @ '': '' @ join_str '', '' skill_list @ [NL]) acc ss
      = acc @ concat (map skill_line ss)"
      by (induction ss arbitrary: acc) (auto simp: skill_line_def)
  qed
  have prj: "\<And>acc ps. foldl (\<lambda>ctx proj.
        ctx @ ''- '' @ py_str (proj_name proj) @ '': '' @ py_str (description proj) @ [NL])
        acc ps
      = acc @ concat (map project_line ps)"
    using foldl_append_lines [where f = project_line]
    by (simp add: project_line_def)
  show ?thesis
    unfolding get_resume_context_def Let_def option.case edu skl prj
    by (simp add: role_framing_def personal_fields_def field_line_def dict_get_def
        education_section_def skills_section_def projects_section_def about_section_def
        closing_instruction_def personal_of_def education_of_def skills_of_def
        projects_of_def about_of_def)
qed

subsection \<open>Occurrences\<close>

lemma occurrences_append_le: "occurrences sub ys \<le> occurrences sub (xs @ ys)"
  by (induction xs) (simp_all add: trans_le_add2)

lemma occurrences_at_start:
  "sub \<noteq> [] \<Longrightarrow> occurrences sub (sub @ r) = Suc (occurrences sub (tl sub @ r))"
  by (cases sub) simp_all

lemma occurrences_ge_one: "1 \<le> occurrences sub (p @ sub @ r)"
proof -
  have "1 \<le> occurrences sub (sub @ r)"
    by (cases sub; cases r) simp_all
  then show ?thesis
    using occurrences_append_le [of sub "sub @ r" p] by linarith
qed

lemma occurrences_twice:
  assumes "sub \<noteq> []"
  shows "2 \<le> occurrences sub (a @ sub @ b @ sub @ c)"
proof -
  have "1 \<le> occurrences sub ((tl sub @ b) @ sub @ c)"
    by (rule occurrences_ge_one)
  then have "2 \<le> occurrences sub (sub @ b @ sub @ c)"
    using occurrences_at_start [OF assms, of "b @ sub @ c"] by simp
  then show ?thesis
    using occurrences_append_le [of sub "sub @ b @ sub @ c" a] by linarith
qed

lemma after_first_decomp:
  "after_first sub s = Some t \<Longrightarrow> \<exists>p. s = p @ sub @ t"
proof (induction s)
  case Nil
  then show ?case by (simp split: if_splits)
next
  case (Cons c cs)
  show ?case
  proof (cases "prefix sub (c # cs)")
    case True
    then obtain r where r: "c # cs = sub @ r" by (auto simp: prefix_def)
    from Cons.prems True have "t = drop (length sub) (c # cs)" by simp
    with r have "t = r" by simp
    with r show ?thesis by (metis append_Nil)
  next
    case False
    with Cons.prems have "after_first sub cs = Some t" by simp
    then obtain p where "cs = p @ sub @ t" using Cons.IH by blast
    then have "c # cs = (c # p) @ sub @ t" by simp
    then show ?thesis by blast
  qed
qed

lemma after_first_found:
  "\<exists>t. after_first sub (p @ sub @ r) = Some t \<and> suffix r t"
proof (induction p)
  case Nil
  show ?case
  proof (cases "sub @ r")
    case Nil
    then show ?thesis by simp
  next
    case (Cons c cs)
    then have "after_first sub (sub @ r) = Some r"
      by (metis after_first.simps(2) append_eq_conv_conj prefixI)
    then show ?thesis by simp
  qed
next
  case (Cons c p)
  show ?case
  proof (cases "prefix sub (c # p @ sub @ r)")
    case True
    then have "after_first sub ((c # p) @ sub @ r) = Some (drop (length sub) ((c # p) @ sub @ r))"
      by simp
    moreover have "suffix r (drop (length sub) ((c # p) @ sub @ r))"
    proof -
      have "drop (length sub) (((c # p) @ sub) @ r) = drop (length sub) ((c # p) @ sub) @ r"
        using drop_append [of "length sub" "(c # p) @ sub" r] by simp
      then show ?thesis
        by (simp add: suffix_def)
    qed
    ultimately show ?thesis by blast
  next
    case False
    then show ?thesis using Cons.IH by simp
  qed
qed


lemma occur_in_order_suffix:
  "occur_in_order ns r \<Longrightarrow> suffix r s \<Longrightarrow> occur_in_order ns s"
proof (induction ns arbitrary: r s)
  case Nil
  then show ?case by simp
next
  case (Cons n ns)
  from Cons.prems(1) obtain t where t: "after_first n r = Some t" "occur_in_order ns t"
    by (auto split: option.splits)
  from t(1) obtain p where "r = p @ n @ t" using after_first_decomp by blast
  moreover from Cons.prems(2) obtain q where "s = q @ r" by (auto simp: suffix_def)
  ultimately have "s = (q @ p) @ n @ t" by simp
  then obtain t' where t': "after_first n s = Some t'" "suffix t t'"
    using after_first_found [of n "q @ p" t] by auto
  from Cons.IH [OF t(2) t'(2)] t'(1) show ?case by simp
qed

lemma occur_in_order_step:
  assumes "occur_in_order ns r"
  shows "occur_in_order (n # ns) (p @ n @ r)"
proof -
  obtain t where t: "after_first n (p @ n @ r) = Some t" "suffix r t"
    using after_first_found [of n p r] by auto
  from occur_in_order_suffix [OF assms t(2)] t(1) show ?thesis by simp
qed

lemma occur_in_order_lines:
  assumes "\<And>x. line x = pre @ name_of x @ tail_of x"
      and "occur_in_order ms rest"
  shows "occur_in_order (map name_of xs @ ms) (concat (map line xs) @ rest)"
proof (induction xs)
  case Nil
  from assms(2) show ?case by simp
next
  case (Cons x xs)
  have "occur_in_order (map name_of xs @ ms) (tail_of x @ concat (map line xs) @ rest)"
    using occur_in_order_suffix [OF Cons.IH] by (simp add: suffix_def)
  then have step: "occur_in_order (name_of x # map name_of xs @ ms)
               (pre @ name_of x @ tail_of x @ concat (map line xs) @ rest)"
    by (rule occur_in_order_step)
  have names: "map name_of (x # xs) @ ms = name_of x # map name_of xs @ ms"
    by simp
  have body: "concat (map line (x # xs)) @ rest
                = pre @ name_of x @ tail_of x @ concat (map line xs) @ rest"
    using assms(1) [of x] by simp
  show ?case
    unfolding names body by (rule step)
qed

lemma occur_in_order_imp_occurrences:
  "occur_in_order ns s \<Longrightarrow> n \<in> set ns \<Longrightarrow> 1 \<le> occurrences n s"
proof (induction ns arbitrary: s)
  case Nil
  then show ?case by simp
next
  case (Cons m ms)
  from Cons.prems(1) obtain t where t: "after_first m s = Some t" "occur_in_order ms t"
    by (auto split: option.splits)
  from t(1) obtain p where s: "s = p @ m @ t" using after_first_decomp by blast
  show ?case
  proof (cases "n = m")
    case True
    with s show ?thesis using occurrences_ge_one by simp
  next
    case False
    with Cons.prems(2) have "n \<in> set ms" by simp
    from Cons.IH [OF t(2) this] have "1 \<le> occurrences n t" .
    also have "\<dots> \<le> occurrences n ((p @ m) @ t)" by (rule occurrences_append_le)
    finally show ?thesis using s by simp
  qed
qed


section \<open>Claims about the Context Builder\<close>

text \<open>
  Claim C6. With no resume document the Context Builder returns the fixed sentence
  that no resume data is available; with one it returns, in this order, the role
  framing with the candidate's name, the personal fields (name, title, email, mobile,
  location, the location reading "Not specified" when the key is absent), the
  Education section with a line "degree - status" per entry, the Skills section with a
  line "category: comma-joined skills" per category, the Projects section with a line
  "name: description" per project, the About section with the biography, and the
  closing instruction. The function is total, so it never fails.
\<close>

theorem context_builder_matches_spec:
  "get_resume_context None = ''No resume data available.''
   \<and> get_resume_context found = spec_context found"
proof (cases found)
  case None
  then show ?thesis
    by (simp add: get_resume_context_def spec_context_def no_resume_sentence_def)
next
  case (Some r)
  then show ?thesis
    by (simp add: get_resume_context_Some spec_context_def)
      (simp add: get_resume_context_def)
qed

text \<open>The rendering of a small resume, line by line.\<close>

lemma skills_heading_doc_rendered:
  "get_resume_context (Some skills_heading_doc) =
     [NL]
     @ ''You are an AI assistant for Ann's portfolio website. Answer questions about their background, skills, and experience professionally and concisely.'' @ [NL]
     @ [NL]
     @ ''Name: Ann'' @ [NL]
     @ ''Title: Developer'' @ [NL]
     @ ''Email: ann@example.org'' @ [NL]
     @ ''Mobile: 1'' @ [NL]
     @ ''Location: Pune'' @ [NL]
     @ [NL]
     @ ''Education:'' @ [NL]
     @ [NL]
     @ ''Skills:'' @ [NL]
     @ ''- Skills: Git'' @ [NL]
     @ [NL]
     @ ''Projects:'' @ [NL]
     @ [NL]
     @ ''About:'' @ [NL]
     @ ''Hi'' @ [NL]
     @ [NL]
     @ ''Answer questions naturally and professionally. If asked about something not mentioned here, politely indicate that information is not available.''"
  by (simp add: get_resume_context_def skills_heading_doc_def dict_get_def)

text \<open>
  Claim C1, as stated, fails: a name can occur more than once in the rendered text.
  The resume whose only skill category is called "Skills" has that name in the
  section heading and in the category's own line.
\<close>

theorem exactly_once_counterexample:
  "''Skills'' \<in> set (category_names skills_heading_doc)
   \<and> 2 \<le> occurrences ''Skills'' (get_resume_context (Some skills_heading_doc))"
proof -
  let ?a = "role_framing (personal_of skills_heading_doc)
             @ personal_fields (personal_of skills_heading_doc)
             @ education_section (education_of skills_heading_doc) @ [NL]"
  let ?b = "[CHR '':'', NL] @ ''- ''"
  let ?c = "'': Git'' @ [NL] @ projects_section (projects_of skills_heading_doc)
               @ about_section (about_of skills_heading_doc) @ closing_instruction"
  have shape: "get_resume_context (Some skills_heading_doc)
          = ?a @ ''Skills'' @ ?b @ ''Skills'' @ ?c"
    by (simp add: get_resume_context_Some skills_section_def skills_of_def
        skills_heading_doc_def skill_line_def)
  have twice: "2 \<le> occurrences ''Skills'' (?a @ ''Skills'' @ ?b @ ''Skills'' @ ?c)"
    by (rule occurrences_twice) simp
  have "2 \<le> occurrences ''Skills'' (get_resume_context (Some skills_heading_doc))"
    unfolding shape by (rule twice)
  moreover have "''Skills'' \<in> set (category_names skills_heading_doc)"
    by (simp add: category_names_def skills_of_def skills_heading_doc_def)
  ultimately show ?thesis by simp
qed

text \<open>
  Claim C1, amended. Every skill category and every project name occurs verbatim in
  the rendered context at least once, and occurrences can be chosen one after the
  other in input order, the categories first and the projects after them: the context
  contains one line per category, in input order, and later one line per project, in
  input order.
\<close>

theorem names_rendered_in_order:
  "occur_in_order (category_names r @ project_names r) (get_resume_context (Some r))
   \<and> (\<forall>n \<in> set (category_names r @ project_names r).
         1 \<le> occurrences n (get_resume_context (Some r)))
   \<and> (\<exists>before between after.
         get_resume_context (Some r)
           = before @ concat (map skill_line (skills_of r)) @ between
             @ concat (map project_line (projects_of r)) @ after)"
proof -
  have sk: "\<And>x. skill_line x = ''- '' @ fst x @ ('': '' @ join_str '', '' (snd x) @ [NL])"
    by (simp add: skill_line_def)
  have pr: "\<And>x. project_line x
      = ''- '' @ py_str (proj_name x) @ ('': '' @ py_str (description x) @ [NL])"
    by (simp add: project_line_def)
  let ?tail = "about_section (about_of r) @ closing_instruction"
  let ?pnames = "map (\<lambda>p. py_str (proj_name p)) (projects_of r)"
  have 1: "occur_in_order (?pnames @ []) (concat (map project_line (projects_of r)) @ ?tail)"
    by (rule occur_in_order_lines [OF pr]) simp
  have 2: "occur_in_order ?pnames
        (([NL] @ ''Projects:'' @ [NL]) @ concat (map project_line (projects_of r)) @ ?tail)"
    using occur_in_order_suffix [OF 1] by (simp add: suffix_def)
  have 3: "occur_in_order (map fst (skills_of r) @ ?pnames)
        (concat (map skill_line (skills_of r)) @ ([NL] @ ''Projects:'' @ [NL])
         @ concat (map project_line (projects_of r)) @ ?tail)"
    by (rule occur_in_order_lines [OF sk 2])
  have ordered: "occur_in_order (category_names r @ project_names r)
      (get_resume_context (Some r))"
    unfolding get_resume_context_Some category_names_def project_names_def
      skills_section_def projects_section_def
    using occur_in_order_suffix [OF 3] by (simp add: suffix_def)
  have shape: "get_resume_context (Some r)
      = (role_framing (personal_of r) @ personal_fields (personal_of r)
         @ education_section (education_of r) @ [NL] @ ''Skills:'' @ [NL])
        @ concat (map skill_line (skills_of r)) @ ([NL] @ ''Projects:'' @ [NL])
        @ concat (map project_line (projects_of r)) @ ?tail"
    by (simp add: get_resume_context_Some skills_section_def projects_section_def)
  from ordered have "\<forall>n \<in> set (category_names r @ project_names r).
         1 \<le> occurrences n (get_resume_context (Some r))"
    using occur_in_order_imp_occurrences by blast
  with ordered shape show ?thesis by blast
qed

theorem names_rendered_in_order_witness:
  "occur_in_order
     [''Frontend'', ''Backend'', ''Database'', ''AI/ML'', ''Tools'', ''Other'',
      ''AI-Powered Portfolio'', ''Full Stack Web Applications'']
     (get_resume_context (Some resume_data))
   \<and> 1 \<le> occurrences ''Tools'' (get_resume_context (Some resume_data))"
proof -
  have names: "category_names resume_data @ project_names resume_data
      = [''Frontend'', ''Backend'', ''Database'', ''AI/ML'', ''Tools'', ''Other'',
         ''AI-Powered Portfolio'', ''Full Stack Web Applications'']"
    by (simp add: category_names_def project_names_def skills_of_def projects_of_def
        resume_data_def)
  have "''Tools'' \<in> set (category_names resume_data @ project_names resume_data)"
    unfolding names by simp
  with names_rendered_in_order [of resume_data] show ?thesis
    unfolding names by blast
qed


section \<open>Claims about the Chat Proxy\<close>

subsection \<open>What the body does once the call has been answered\<close>

lemma chat_body_after_call:
  assumes "getenv_api_key e = Some k" "k \<noteq> []" "k \<noteq> placeholder_key"
      and "db_fault e ResumeFindOne = None"
      and "post e (chat_request k w message) = Inr resp"
  shows "chat_body e w message =
     (let w1 = w\<lparr>outbound := outbound w @ [chat_request k w message]\<rparr> in
      if status_code resp \<noteq> 200 then
        (if body_text resp \<noteq> [] then
           (case json_result resp of
              Inl err \<Rightarrow> (Inl (RaisedOther err), w1)
            | Inr error_detail \<Rightarrow>
                (Inl (RaisedHTTP (HTTPException 500
                   (''AI service error: '' @ str_json e error_detail))), w1))
         else (Inl (RaisedHTTP (HTTPException 500 ''AI service error: AI service error'')), w1))
      else
        (case json_result resp of
           Inl err \<Rightarrow> (Inl (RaisedOther err), w1)
         | Inr body \<Rightarrow>
             (case extract_content body of
                Inl err \<Rightarrow> (Inl (RaisedOther err), w1)
              | Inr ai \<Rightarrow>
                  (let (ts, w2) = record_exchange e w1 message ai
                   in case make_chat_response e ai ts of
                        Inl err \<Rightarrow> (Inl (RaisedOther err), w2)
                      | Inr r \<Rightarrow> (Inr r, w2)))))"
  using assms unfolding chat_body_def chat_request_def Let_def
  by simp

lemma record_exchange_failed_insert:
  "db_fault e ChatsInsertOne = Some m \<Longrightarrow>
   record_exchange e w message ai
     = (utcnow_isoformat e (Suc (clock_reads w)), w\<lparr>clock_reads := Suc (Suc (clock_reads w))\<rparr>)"
  by (simp add: record_exchange_def Let_def)

lemma sample_key: "getenv_api_key sample_env = Some ''sk-or-v1-0123''"
  "''sk-or-v1-0123'' \<noteq> []" "''sk-or-v1-0123'' \<noteq> placeholder_key"
  by (simp_all add: sample_env_def placeholder_key_def)

lemma extract_hello: "extract_content hello_body = Inr (JStr ''Hello!'')"
  by (simp add: extract_content_def hello_body_def)

subsection \<open>Missing credential\<close>

text \<open>
  Claim C3. If the configured credential is absent or equal to the placeholder, the
  Chat Proxy fails with the configuration error, a server error (status 500), and
  it does so before any outbound call: the state, with its log of outbound calls, is
  returned as it was.
\<close>

theorem chat_unconfigured_key:
  assumes "getenv_api_key e = None \<or> getenv_api_key e = Some placeholder_key"
  shows "chat e w message = (Inl key_not_configured, w)
         \<and> key_not_configured = HTTPException 500 ''OpenRouter API key not configured. Please add your API key to backend/.env file. Get a free key at https://openrouter.ai/''
         \<and> outbound (snd (chat e w message)) = outbound w"
  using assms by (auto simp: chat_def chat_body_def key_not_configured_def)

theorem chat_unconfigured_key_witness:
  "chat (sample_env\<lparr>getenv_api_key := None\<rparr>) empty_world ''hi''
     = (Inl key_not_configured, empty_world)
   \<and> chat (sample_env\<lparr>getenv_api_key := Some ''your_openrouter_api_key_here''\<rparr>) empty_world ''hi''
     = (Inl key_not_configured, empty_world)"
  using chat_unconfigured_key [of "sample_env\<lparr>getenv_api_key := None\<rparr>" empty_world "''hi''"]
    chat_unconfigured_key [of "sample_env\<lparr>getenv_api_key := Some ''your_openrouter_api_key_here''\<rparr>" empty_world "''hi''"]
  by (simp add: placeholder_key_def)

subsection \<open>Non-success answer of the upstream\<close>

text \<open>
  On a non-success status the handler always fails with status 500 and writes no chat
  exchange. The detail is "AI service error: " followed by the upstream payload when
  the body parses as JSON and by the generic message when the body is empty; when the
  body is not empty and not JSON, reading the payload raises and the detail is the text
  of that decoding failure.
\<close>

lemma chat_non_success:
  assumes "getenv_api_key e = Some k" "k \<noteq> []" "k \<noteq> placeholder_key"
      and "db_fault e ResumeFindOne = None"
      and "post e (chat_request k w message) = Inr resp"
      and "status_code resp \<noteq> 200"
  shows "fst (chat e w message) =
           Inl (HTTPException 500
             (if body_text resp = [] then ''AI service error: AI service error''
              else case json_result resp of
                     Inr payload \<Rightarrow> ''AI service error: '' @ str_json e payload
                   | Inl (Exc c text) \<Rightarrow> text))
         \<and> chats_collection (snd (chat e w message)) = chats_collection w"
proof -
  show ?thesis
  proof (cases "json_result resp")
    case (Inl err)
    then show ?thesis
      using assms(6) by (cases err) (simp add: chat_def chat_body_after_call [OF assms(1-5)] Let_def)
  next
    case (Inr payload)
    then show ?thesis
      using assms(6) by (simp add: chat_def chat_body_after_call [OF assms(1-5)] Let_def)
  qed
qed

lemma chat_non_success_example:
  "fst (chat rejected_env empty_world ''hi'') = Inl (HTTPException 500 ''AI service error: {}'')
   \<and> chats_collection (snd (chat rejected_env empty_world ''hi'')) = []"
proof -
  have call: "post rejected_env (chat_request ''sk-or-v1-0123'' empty_world ''hi'')
     = Inr rejected_response"
    by (simp add: rejected_env_def)
  have key: "getenv_api_key rejected_env = Some ''sk-or-v1-0123''"
    and db: "db_fault rejected_env ResumeFindOne = None"
    by (simp_all add: rejected_env_def sample_env_def)
  have status: "status_code rejected_response \<noteq> 200"
    by (simp add: rejected_response_def)
  from chat_non_success [OF key sample_key(2,3) db call status] show ?thesis
    by (simp add: rejected_response_def rejected_env_def sample_env_def empty_world_def)
qed

text \<open>
  Claim C2. If the outbound call returns a non-success status, the Chat Proxy is to
  fail with an upstream error that carries the upstream error payload, or a generic
  message when the body is empty, and to write no chat exchange. The code misses the
  body that is neither empty nor JSON: on a 502 answer with an HTML body, the
  error detail is the text of the JSON decoding failure, with neither the payload nor
  the "AI service error" message in it.
\<close>

theorem non_success_html_body:
  "post bad_gateway_env (chat_request ''sk-or-v1-0123'' empty_world ''hi'')
     = Inr bad_gateway_response
   \<and> status_code bad_gateway_response = 502
   \<and> body_text bad_gateway_response = ''<html>Bad Gateway</html>''
   \<and> fst (chat bad_gateway_env empty_world ''hi'')
       = Inl (HTTPException 500 ''Expecting value: line 1 column 1 (char 0)'')"
proof -
  have call: "post bad_gateway_env (chat_request ''sk-or-v1-0123'' empty_world ''hi'')
     = Inr bad_gateway_response"
    by (simp add: bad_gateway_env_def)
  have "chat_body bad_gateway_env empty_world ''hi''
      = (Inl (RaisedOther (Exc JSONDecodeError ''Expecting value: line 1 column 1 (char 0)'')),
         empty_world\<lparr>outbound := outbound empty_world
            @ [chat_request ''sk-or-v1-0123'' empty_world ''hi'']\<rparr>)"
    by (subst chat_body_after_call [OF _ sample_key(2,3) _ call])
      (simp_all add: bad_gateway_env_def sample_env_def bad_gateway_response_def)
  then have "fst (chat bad_gateway_env empty_world ''hi'')
       = Inl (HTTPException 500 ''Expecting value: line 1 column 1 (char 0)'')"
    by (simp add: chat_def)
  with call show ?thesis
    by (simp add: bad_gateway_response_def)
qed

subsection \<open>Storage failure while recording\<close>

text \<open>
  Claim C4. When the external call succeeds (status 200 and a text under the first
  choice's message content) and the insert into the chat history raises, the failure
  is not surfaced: the Chat Proxy returns the text with a timestamp read from the
  clock after the failed insert, and the chat history is as it was.
\<close>

theorem chat_storage_failure_swallowed:
  assumes "getenv_api_key e = Some k" "k \<noteq> []" "k \<noteq> placeholder_key"
      and "db_fault e ResumeFindOne = None"
      and "post e (chat_request k w message) = Inr resp"
      and "status_code resp = 200"
      and "json_result resp = Inr body"
      and "extract_content body = Inr (JStr answer)"
      and "db_fault e ChatsInsertOne = Some db_error"
  shows "fst (chat e w message)
           = Inr \<lparr>response = answer,
                  response_timestamp = utcnow_isoformat e (Suc (clock_reads w))\<rparr>
         \<and> chats_collection (snd (chat e w message)) = chats_collection w"
  using assms(6-8)
  by (simp add: chat_def chat_body_after_call [OF assms(1-5)] Let_def
      record_exchange_failed_insert [OF assms(9)] make_chat_response_def)

theorem chat_storage_failure_swallowed_witness:
  "fst (chat storage_down_env empty_world ''hi'')
     = Inr \<lparr>response = ''Hello!'', response_timestamp = ''2026-01-01T10:00:00.000200''\<rparr>
   \<and> chats_collection (snd (chat storage_down_env empty_world ''hi'')) = []"
proof -
  have key: "getenv_api_key storage_down_env = Some ''sk-or-v1-0123''"
    and db: "db_fault storage_down_env ResumeFindOne = None"
    and call: "post storage_down_env (chat_request ''sk-or-v1-0123'' empty_world ''hi'')
       = Inr hello_response"
    and down: "db_fault storage_down_env ChatsInsertOne = Some ''No servers found yet''"
    by (simp_all add: storage_down_env_def sample_env_def)
  have status: "status_code hello_response = 200"
    and body: "json_result hello_response = Inr hello_body"
    by (simp_all add: hello_response_def)
  from chat_storage_failure_swallowed
         [OF key sample_key(2,3) db call status body extract_hello down]
  show ?thesis
    by (simp add: storage_down_env_def sample_env_def sample_clock_def empty_world_def)
qed

subsection \<open>Success status without the expected structure\<close>

text \<open>
  Claim C5, as stated, fails: nothing guards the access to the first choice's message
  content. On a 200 answer whose body is the empty object, the body of \<open>chat\<close>
  ends with the raw \<open>KeyError\<close>, which travels to the handler's last clause and
  comes out as a 500 whose detail is just the text of that \<open>KeyError\<close>.
\<close>

theorem malformed_success_counterexample:
  "post empty_object_env (chat_request ''sk-or-v1-0123'' empty_world ''hi'')
     = Inr empty_object_response
   \<and> status_code empty_object_response = 200
   \<and> json_result empty_object_response = Inr (JObj [])
   \<and> fst (chat_body empty_object_env empty_world ''hi'')
       = Inl (RaisedOther (Exc KeyError ([CHR 0x27] @ ''choices'' @ [CHR 0x27])))
   \<and> fst (chat empty_object_env empty_world ''hi'')
       = Inl (HTTPException 500 ([CHR 0x27] @ ''choices'' @ [CHR 0x27]))"
proof -
  have call: "post empty_object_env (chat_request ''sk-or-v1-0123'' empty_world ''hi'')
     = Inr empty_object_response"
    by (simp add: empty_object_env_def)
  have full: "chat_body empty_object_env empty_world ''hi''
       = (Inl (RaisedOther (Exc KeyError ([CHR 0x27] @ ''choices'' @ [CHR 0x27]))),
          empty_world\<lparr>outbound := outbound empty_world
            @ [chat_request ''sk-or-v1-0123'' empty_world ''hi'']\<rparr>)"
    by (subst chat_body_after_call [OF _ sample_key(2,3) _ call])
      (simp_all add: empty_object_env_def sample_env_def empty_object_response_def
        extract_content_def repr_key_def)
  then have "fst (chat empty_object_env empty_world ''hi'')
       = Inl (HTTPException 500 ([CHR 0x27] @ ''choices'' @ [CHR 0x27]))"
    by (simp add: chat_def)
  with call full show ?thesis
    by (simp add: empty_object_response_def)
qed

text \<open>
  Claim C5, amended. If the external call returns status 200 and the access to the
  first choice's message content raises, that raw exception leaves the body of
  \<open>chat\<close> and the handler's last clause turns it into a server error (status 500)
  whose detail is the text of the exception; no chat exchange is written.
\<close>

theorem chat_malformed_success:
  assumes "getenv_api_key e = Some k" "k \<noteq> []" "k \<noteq> placeholder_key"
      and "db_fault e ResumeFindOne = None"
      and "post e (chat_request k w message) = Inr resp"
      and "status_code resp = 200"
      and "json_result resp = Inr body"
      and "extract_content body = Inl (Exc c text)"
  shows "fst (chat_body e w message) = Inl (RaisedOther (Exc c text))
         \<and> fst (chat e w message) = Inl (HTTPException 500 text)
         \<and> chats_collection (snd (chat e w message)) = chats_collection w"
  using assms(6-8)
  by (simp add: chat_def chat_body_after_call [OF assms(1-5)] Let_def)

theorem chat_malformed_success_witness:
  "fst (chat_body no_choices_env empty_world ''hi'')
     = Inl (RaisedOther (Exc IndexError ''list index out of range''))
   \<and> fst (chat no_choices_env empty_world ''hi'')
     = Inl (HTTPException 500 ''list index out of range'')
   \<and> chats_collection (snd (chat no_choices_env empty_world ''hi'')) = []"
proof -
  have key: "getenv_api_key no_choices_env = Some ''sk-or-v1-0123''"
    and db: "db_fault no_choices_env ResumeFindOne = None"
    and call: "post no_choices_env (chat_request ''sk-or-v1-0123'' empty_world ''hi'')
       = Inr no_choices_response"
    by (simp_all add: no_choices_env_def sample_env_def)
  have status: "status_code no_choices_response = 200"
    and body: "json_result no_choices_response = Inr (JObj [(''choices'', JArr [])])"
    by (simp_all add: no_choices_response_def)
  have content: "extract_content (JObj [(''choices'', JArr [])])
      = Inl (Exc IndexError ''list index out of range'')"
    by (simp add: extract_content_def)
  from chat_malformed_success [OF key sample_key(2,3) db call status body content]
  show ?thesis
    by (simp add: empty_world_def)
qed


section \<open>Claims about the resume store\<close>

subsection \<open>What each operation does to the resume collection\<close>

lemma record_exchange_keeps_resume:
  "resume_collection (snd (record_exchange e w message ai)) = resume_collection w"
  by (simp add: record_exchange_def Let_def split: option.splits)

lemma record_exchange_result_keeps_resume:
  "record_exchange e w message ai = (ts, w2) \<Longrightarrow> resume_collection w2 = resume_collection w"
  using record_exchange_keeps_resume [of e w message ai] by simp

lemma chat_body_keeps_resume:
  "resume_collection (snd (chat_body e w message)) = resume_collection w"
  unfolding chat_body_def Let_def
  by (auto split: option.splits sum.splits prod.splits if_splits
      dest!: record_exchange_result_keeps_resume)

lemma chat_keeps_resume:
  "resume_collection (snd (chat e w message)) = resume_collection w"
proof (cases "chat_body e w message")
  case (Pair outcome w')
  with chat_body_keeps_resume [of e w message] show ?thesis
    by (cases outcome) (simp_all add: chat_def)
qed

lemma initialize_resume_store:
  "resume_collection (snd (initialize_resume e w)) =
     (if db_fault e ResumeCountDocuments = None \<and> db_fault e ResumeInsertOne = None
         \<and> resume_collection w = []
      then [\<lparr>doc_id = ObjectId (new_object_id e (ids_made w)), doc = resume_data\<rparr>]
      else resume_collection w)"
  by (simp add: initialize_resume_def split: option.splits)

lemma update_resume_store:
  "resume_collection (snd (update_resume e w data)) =
     (if db_fault e ResumeReplaceOne = None then
        (case resume_collection w of
           [] \<Rightarrow> [\<lparr>doc_id = ObjectId (new_object_id e (ids_made w)), doc = data\<rparr>]
         | d # ds \<Rightarrow> d\<lparr>doc := data\<rparr> # ds)
      else resume_collection w)"
  by (simp add: update_resume_def replace_one_upsert_def split: option.splits list.splits)

lemma step_resume_store:
  assumes "length (resume_collection w) \<le> 1"
  shows "length (resume_collection (step e w op)) \<le> 1
   \<and> prefix (map doc_id (resume_collection w)) (map doc_id (resume_collection (step e w op)))"
proof (cases op)
  case Startup
  with assms show ?thesis
    by (simp add: initialize_resume_store)
next
  case (Chat message)
  with assms show ?thesis by (simp add: chat_keeps_resume)
next
  case (UpdateResume data)
  with assms show ?thesis
    by (auto simp: update_resume_store split: list.splits)
qed (use assms in simp_all)

subsection \<open>At most one resume document\<close>

text \<open>
  Claim C7. Starting from a resume store with at most one document, every run of
  operations of the system (the startup initialisation, the chat, history and resume
  endpoints, each in any environment) leaves at most one document in it; the documents
  present at the start are still there, under the same identifiers, so none is deleted;
  and the startup initialisation leaves a store that is not empty as it is.
\<close>

theorem at_most_one_resume:
  assumes "length (resume_collection w) \<le> 1"
  shows "length (resume_collection (run w ops)) \<le> 1
         \<and> prefix (map doc_id (resume_collection w)) (map doc_id (resume_collection (run w ops)))
         \<and> length (resume_collection w) \<le> length (resume_collection (run w ops))
         \<and> (resume_collection w \<noteq> [] \<longrightarrow>
               resume_collection (step e' w Startup) = resume_collection w)"
proof -
  have startup: "resume_collection w \<noteq> [] \<longrightarrow>
      resume_collection (step e' w Startup) = resume_collection w"
    by (simp add: initialize_resume_store)
  have "length (resume_collection (run w ops)) \<le> 1
         \<and> prefix (map doc_id (resume_collection w)) (map doc_id (resume_collection (run w ops)))
         \<and> length (resume_collection w) \<le> length (resume_collection (run w ops))"
    using assms
  proof (induction ops arbitrary: w)
    case Nil
    then show ?case by simp
  next
    case (Cons eo ops)
    obtain e op where eo: "eo = (e, op)" by (cases eo)
    from step_resume_store [OF Cons.prems, of e op]
    have one: "length (resume_collection (step e w op)) \<le> 1"
      and pre: "prefix (map doc_id (resume_collection w))
                  (map doc_id (resume_collection (step e w op)))"
      by simp_all
    from Cons.IH [OF one]
    have "length (resume_collection (run (step e w op) ops)) \<le> 1"
      and pre': "prefix (map doc_id (resume_collection (step e w op)))
            (map doc_id (resume_collection (run (step e w op) ops)))"
      by simp_all
    moreover from pre pre' have both: "prefix (map doc_id (resume_collection w))
            (map doc_id (resume_collection (run (step e w op) ops)))"
      by (rule prefix_order.order_trans)
    moreover from both have "length (resume_collection w)
        \<le> length (resume_collection (run (step e w op) ops))"
      using prefix_length_le by fastforce
    ultimately show ?case by (simp add: eo)
  qed
  with startup show ?thesis by simp
qed

theorem at_most_one_resume_witness:
  "resume_collection
     (run seeded_world
        [(sample_env, Startup), (sample_env, Chat ''hi''),
         (sample_env, UpdateResume skills_heading_doc), (sample_env, GetResume)])
   = [\<lparr>doc_id = ObjectId ''65a1b2c3d4e5f60718293a4b'', doc = skills_heading_doc\<rparr>]
   \<and> resume_collection (step sample_env seeded_world Startup)
     = resume_collection seeded_world
   \<and> resume_collection seeded_world \<noteq> []
   \<and> length (resume_collection seeded_world) \<le> 1"
proof -
  have one: "length (resume_collection seeded_world) \<le> 1"
    by (simp add: seeded_world_def)
  have final: "resume_collection
     (run seeded_world
        [(sample_env, Startup), (sample_env, Chat ''hi''),
         (sample_env, UpdateResume skills_heading_doc), (sample_env, GetResume)])
   = [\<lparr>doc_id = ObjectId ''65a1b2c3d4e5f60718293a4b'', doc = skills_heading_doc\<rparr>]"
    by (simp add: update_resume_store chat_keeps_resume initialize_resume_store)
      (simp add: seeded_world_def sample_env_def)
  have nonempty: "resume_collection seeded_world \<noteq> []"
    by (simp add: seeded_world_def)
  from at_most_one_resume [OF one,
      of "[(sample_env, Startup), (sample_env, Chat ''hi''),
           (sample_env, UpdateResume skills_heading_doc), (sample_env, GetResume)]"
         sample_env] nonempty
  have "resume_collection (step sample_env seeded_world Startup)
      = resume_collection seeded_world"
    by blast
  with final nonempty one show ?thesis
    by blast
qed

subsection \<open>PUT then GET\<close>

text \<open>
  Claim C8. For every resume payload and every store state, when the store accepts
  the operations, \<open>PUT /api/resume\<close> answers with the confirmation and the
  modification count, and a following \<open>GET /api/resume\<close> returns the document just
  written (with its identifier as a string). The PUT replaces the content of the
  stored document when there is one, keeping its identifier and every other document,
  and inserts the document when there is none. Repeating the same PUT leaves the
  stored documents unchanged.
\<close>

theorem put_then_get:
  assumes "db_fault e ResumeReplaceOne = None" and "db_fault e' ResumeFindOne = None"
  shows "fst (update_resume e w data)
           = Inr \<lparr>reply_message = ''Resume updated successfully'',
                  modified = (case resume_collection w of
                                [] \<Rightarrow> 0
                              | d # ds \<Rightarrow> if doc d = data then 0 else 1)\<rparr>
         \<and> get_resume e' (snd (update_resume e w data))
           = Inr (ResumeFound
                   \<lparr>doc_id = str_id (case resume_collection w of
                                       [] \<Rightarrow> ObjectId (new_object_id e (ids_made w))
                                     | d # ds \<Rightarrow> doc_id d),
                    doc = data\<rparr>)
         \<and> resume_collection (snd (update_resume e w data))
           = (case resume_collection w of
                [] \<Rightarrow> [\<lparr>doc_id = ObjectId (new_object_id e (ids_made w)), doc = data\<rparr>]
              | d # ds \<Rightarrow> \<lparr>doc_id = doc_id d, doc = data\<rparr> # ds)
         \<and> resume_collection (snd (update_resume e'' (snd (update_resume e w data)) data))
           = resume_collection (snd (update_resume e w data))"
proof (cases "resume_collection w")
  case Nil
  with assms show ?thesis
    by (simp add: update_resume_def replace_one_upsert_def get_resume_def find_one_def
        split: option.splits)
next
  case (Cons d ds)
  with assms show ?thesis
    by (simp add: update_resume_def replace_one_upsert_def get_resume_def find_one_def
        split: option.splits)
qed

theorem put_then_get_witness:
  "get_resume sample_env (snd (update_resume sample_env empty_world skills_heading_doc))
     = Inr (ResumeFound \<lparr>doc_id = IdStr ''65a1b2c3d4e5f60718293a4b'', doc = skills_heading_doc\<rparr>)
   \<and> fst (update_resume sample_env empty_world skills_heading_doc)
     = Inr \<lparr>reply_message = ''Resume updated successfully'', modified = 0\<rparr>"
proof -
  have ok: "db_fault sample_env ResumeReplaceOne = None" "db_fault sample_env ResumeFindOne = None"
    by (simp_all add: sample_env_def)
  from put_then_get [OF ok, of empty_world skills_heading_doc] show ?thesis
    by (simp add: empty_world_def sample_env_def)
qed

section \<open>Claims about the chat history endpoint\<close>

lemma sort_desc_newest_first: "newest_first (sort_desc cs)"
proof -
  have "sorted (map timestamp (sort_key timestamp cs))"
    by (rule sorted_sort_key)
  then have "sorted_wrt (\<lambda>a b. timestamp a \<le> timestamp b) (sort_key timestamp cs)"
    by (simp add: sorted_wrt_map)
  then show ?thesis
    by (simp add: newest_first_def sort_desc_def sorted_wrt_rev)
qed

lemma newest_first_take: "newest_first cs \<Longrightarrow> newest_first (take n cs)"
  by (simp add: newest_first_def)

lemma newest_first_stringified:
  "newest_first (map (\<lambda>c. c\<lparr>chat_id := str_id (chat_id c)\<rparr>) cs) = newest_first cs"
  by (simp add: newest_first_def sorted_wrt_map)

lemma str_id_plain: "is_plain_string (str_id i)"
  by (cases i) simp_all

lemma length_sort_desc: "length (sort_desc cs) = length cs"
  by (simp add: sort_desc_def)

lemma mset_sort_desc: "mset (sort_desc cs) = mset cs"
  by (simp add: sort_desc_def)

text \<open>
  Claim C9, as stated, fails at the limit 0: with one record in the store,
  \<open>GET /api/chat/history?limit=0\<close> returns that record, which is more than 0 records.
\<close>

theorem history_limit_counterexample:
  "get_chat_history sample_env one_chat_world 0
     = Inr [\<lparr>chat_id = IdStr ''65a1b2c3d4e5f60718293a4b'', user_message = ''hi'',
             ai_response = JStr ''Hello!'', timestamp = ''2026-01-01T10:00:00.000100''\<rparr>]"
  by (simp add: get_chat_history_def sample_env_def one_chat_world_def cursor_limit_def
      sort_desc_def)

text \<open>
  Claim C9, amended. For every chat-history store state and every requested limit
  \<open>N\<close> of at least 1 (10 when the query has none), \<open>GET /api/chat/history\<close> returns
  the first \<open>N\<close> records of the store in descending order of timestamp: at most
  \<open>N\<close> records, newest first, each with its identifier converted to a plain string.
\<close>

theorem chat_history_positive_limit:
  assumes "db_fault e ChatsFind = None" and "0 < query_limit q"
  shows "get_chat_history e w (query_limit q)
           = Inr (map (\<lambda>c. c\<lparr>chat_id := str_id (chat_id c)\<rparr>)
                    (take (nat (query_limit q)) (sort_desc (chats_collection w))))
         \<and> (\<forall>cs. get_chat_history e w (query_limit q) = Inr cs \<longrightarrow>
               int (length cs) \<le> query_limit q \<and> newest_first cs
               \<and> (\<forall>c \<in> set cs. is_plain_string (chat_id c)))
         \<and> query_limit None = 10"
proof -
  let ?cs = "map (\<lambda>c. c\<lparr>chat_id := str_id (chat_id c)\<rparr>)
               (take (nat (query_limit q)) (sort_desc (chats_collection w)))"
  have result: "get_chat_history e w (query_limit q) = Inr ?cs"
    using assms by (simp add: get_chat_history_def cursor_limit_def)
  have "int (length ?cs) \<le> query_limit q"
    using assms(2) by simp
  moreover have "newest_first ?cs"
    by (simp only: newest_first_stringified newest_first_take sort_desc_newest_first)
  moreover have "\<forall>c \<in> set ?cs. is_plain_string (chat_id c)"
    by (auto simp: str_id_plain)
  moreover have "query_limit None = 10"
    by (simp add: query_limit_def)
  ultimately show ?thesis
    using result by simp
qed

theorem chat_history_positive_limit_witness:
  "get_chat_history sample_env two_chat_world (query_limit (Some 1))
     = Inr [\<lparr>chat_id = IdStr ''65a1b2c3d4e5f60718293a4c'', user_message = ''bye'',
             ai_response = JStr ''Goodbye!'', timestamp = ''2026-01-01T10:00:05.000200''\<rparr>]
   \<and> get_chat_history sample_env two_chat_world (query_limit None)
     = Inr [\<lparr>chat_id = IdStr ''65a1b2c3d4e5f60718293a4c'', user_message = ''bye'',
             ai_response = JStr ''Goodbye!'', timestamp = ''2026-01-01T10:00:05.000200''\<rparr>,
            \<lparr>chat_id = IdStr ''65a1b2c3d4e5f60718293a4b'', user_message = ''hi'',
             ai_response = JStr ''Hello!'', timestamp = ''2026-01-01T10:00:00.000100''\<rparr>]"
proof -
  have ok: "db_fault sample_env ChatsFind = None"
    by (simp add: sample_env_def)
  have one: "0 < query_limit (Some 1)" and ten: "0 < query_limit None"
    by (simp_all add: query_limit_def)
  have sorted: "sort_desc (chats_collection two_chat_world)
      = [\<lparr>chat_id = ObjectId ''65a1b2c3d4e5f60718293a4c'', user_message = ''bye'',
          ai_response = JStr ''Goodbye!'', timestamp = ''2026-01-01T10:00:05.000200''\<rparr>,
         \<lparr>chat_id = ObjectId ''65a1b2c3d4e5f60718293a4b'', user_message = ''hi'',
          ai_response = JStr ''Hello!'', timestamp = ''2026-01-01T10:00:00.000100''\<rparr>]"
    by (simp add: sort_desc_def two_chat_world_def)
  from chat_history_positive_limit [OF ok one, of two_chat_world]
    chat_history_positive_limit [OF ok ten, of two_chat_world]
  show ?thesis
    by (simp add: sorted query_limit_def)
qed

text \<open>
  Claim C10. With the limit 0, \<open>GET /api/chat/history\<close> returns every record of the
  store (the store reads 0 as no limit), so on a store that is not empty the bound
  "at most \<open>N\<close> records" does not hold at \<open>N = 0\<close>.
\<close>

theorem chat_history_limit_zero:
  assumes "db_fault e ChatsFind = None"
  shows "get_chat_history e w 0
           = Inr (map (\<lambda>c. c\<lparr>chat_id := str_id (chat_id c)\<rparr>)
                    (sort_desc (chats_collection w)))
         \<and> mset (sort_desc (chats_collection w)) = mset (chats_collection w)
         \<and> (\<forall>cs. get_chat_history e w 0 = Inr cs \<longrightarrow>
               length cs = length (chats_collection w)
               \<and> (chats_collection w \<noteq> [] \<longrightarrow> \<not> int (length cs) \<le> 0))"
proof -
  have result: "get_chat_history e w 0
      = Inr (map (\<lambda>c. c\<lparr>chat_id := str_id (chat_id c)\<rparr>) (sort_desc (chats_collection w)))"
    using assms by (simp add: get_chat_history_def cursor_limit_def)
  have "chats_collection w \<noteq> [] \<longrightarrow> sort_desc (chats_collection w) \<noteq> []"
    using length_sort_desc [of "chats_collection w"] by auto
  then show ?thesis
    by (simp add: result length_sort_desc mset_sort_desc)
qed

theorem chat_history_limit_zero_witness:
  "get_chat_history sample_env two_chat_world 0
     = Inr [\<lparr>chat_id = IdStr ''65a1b2c3d4e5f60718293a4c'', user_message = ''bye'',
             ai_response = JStr ''Goodbye!'', timestamp = ''2026-01-01T10:00:05.000200''\<rparr>,
            \<lparr>chat_id = IdStr ''65a1b2c3d4e5f60718293a4b'', user_message = ''hi'',
             ai_response = JStr ''Hello!'', timestamp = ''2026-01-01T10:00:00.000100''\<rparr>]
   \<and> chats_collection two_chat_world \<noteq> []"
proof -
  have ok: "db_fault sample_env ChatsFind = None"
    by (simp add: sample_env_def)
  have sorted: "sort_desc (chats_collection two_chat_world)
      = [\<lparr>chat_id = ObjectId ''65a1b2c3d4e5f60718293a4c'', user_message = ''bye'',
          ai_response = JStr ''Goodbye!'', timestamp = ''2026-01-01T10:00:05.000200''\<rparr>,
         \<lparr>chat_id = ObjectId ''65a1b2c3d4e5f60718293a4b'', user_message = ''hi'',
          ai_response = JStr ''Hello!'', timestamp = ''2026-01-01T10:00:00.000100''\<rparr>]"
    by (simp add: sort_desc_def two_chat_world_def)
  from chat_history_limit_zero [OF ok, of two_chat_world] show ?thesis
    by (simp add: sorted) (simp add: two_chat_world_def)
qed

end
